theory Spec2Isabelle
  imports Main
begin

section \<open>Python values as the NiceHash integration sees them\<close>

text \<open>
  The rig records handed to \<open>resolve_rig_name\<close> are decoded JSON: null, booleans,
  integers, strings, sequences and mappings with string keys. A mapping is an
  association list read with \<open>map_of\<close>. Strings are ASCII strings: \<open>str.strip\<close>
  and \<open>str.upper\<close> are modelled on the ASCII range, where Python's whitespace is
  the codes 9 to 13, 28 to 31 and 32, and \<open>upper\<close> changes the letters a to z only.
\<close>

datatype pyval =
    PNone
  | PBool bool
  | PInt int
  | PStr string
  | PList "pyval list"
  | PDict "(string \<times> pyval) list"

text \<open>The two exceptions the resolver's operations can raise.\<close>

datatype py_error = AttributeError | TypeError

text \<open>Sequencing of computations that may raise: the first error wins.\<close>

definition ebind :: "'e + 'a \<Rightarrow> ('a \<Rightarrow> 'e + 'b) \<Rightarrow> 'e + 'b" where
  "ebind r f = (case r of Inl e \<Rightarrow> Inl e | Inr v \<Rightarrow> f v)"

fun emap :: "('a \<Rightarrow> 'e + 'b) \<Rightarrow> 'a list \<Rightarrow> 'e + 'b list" where
  "emap f [] = Inr []"
| "emap f (x # xs) =
     (case f x of
        Inl e \<Rightarrow> Inl e
      | Inr y \<Rightarrow> (case emap f xs of Inl e \<Rightarrow> Inl e | Inr ys \<Rightarrow> Inr (y # ys)))"

text \<open>Python truthiness, as used by \<open>not rig\<close> and by \<open>x or default\<close>.\<close>

fun truthy :: "pyval \<Rightarrow> bool" where
  "truthy PNone = False"
| "truthy (PBool b) = b"
| "truthy (PInt i) = (i \<noteq> 0)"
| "truthy (PStr s) = (s \<noteq> [])"
| "truthy (PList xs) = (xs \<noteq> [])"
| "truthy (PDict m) = (m \<noteq> [])"

definition py_or :: "pyval \<Rightarrow> pyval \<Rightarrow> pyval" where
  "py_or v d = (if truthy v then v else d)"

text \<open>\<open>isinstance(v, dict)\<close> and \<open>isinstance(v, str)\<close>.\<close>

fun is_dict :: "pyval \<Rightarrow> bool" where
  "is_dict (PDict m) = True"
| "is_dict v = False"


text \<open>\<open>d.get(k)\<close> and \<open>d.get(k, default)\<close> on a dict.\<close>

definition dget_default :: "(string \<times> pyval) list \<Rightarrow> string \<Rightarrow> pyval \<Rightarrow> pyval" where
  "dget_default m k d = (case map_of m k of None \<Rightarrow> d | Some v \<Rightarrow> v)"

definition dget :: "(string \<times> pyval) list \<Rightarrow> string \<Rightarrow> pyval" where
  "dget m k = dget_default m k PNone"

text \<open>
  \<open>v.get(k)\<close> on an arbitrary value: only a dict has the attribute \<open>get\<close>; on
  None, a bool, an int, a str or a list the attribute lookup raises AttributeError.
\<close>

fun py_get :: "pyval \<Rightarrow> string \<Rightarrow> py_error + pyval" where
  "py_get (PDict m) k = Inr (dget m k)"
| "py_get v k = Inl AttributeError"

text \<open>
  \<open>for x in v\<close>: a list yields its elements, a dict its keys, a str its characters
  as one-character strings; None, a bool and an int are not iterable (TypeError).
\<close>

fun py_iter :: "pyval \<Rightarrow> py_error + pyval list" where
  "py_iter (PList xs) = Inr xs"
| "py_iter (PDict m) = Inr (map PStr (remdups (map fst m)))"
| "py_iter (PStr s) = Inr (map (\<lambda>c. PStr [c]) s)"
| "py_iter v = Inl TypeError"

subsection \<open>Strings\<close>

definition is_space :: "char \<Rightarrow> bool" where
  "is_space c = (let n = (of_char c :: nat) in (9 \<le> n \<and> n \<le> 13) \<or> (28 \<le> n \<and> n \<le> 32))"

definition strip :: "string \<Rightarrow> string" where
  "strip s = rev (dropWhile is_space (rev (dropWhile is_space s)))"

definition upper_char :: "char \<Rightarrow> char" where
  "upper_char c =
     (let n = (of_char c :: nat) in if 97 \<le> n \<and> n \<le> 122 then char_of (n - 32) else c)"

definition upper :: "string \<Rightarrow> string" where
  "upper s = map upper_char s"

section \<open>The name resolver\<close>

definition PLACEHOLDER_RIG_NAMES :: "string list" where
  "PLACEHOLDER_RIG_NAMES = [''__DEFAULT__'', ''- UNMANAGED -'', ''UNMANAGED'']"

text \<open>
  \<open>{token.upper() for token in PLACEHOLDER_RIG_NAMES}\<close>: the comprehension walks the
  set in some order \<open>names\<close>; what it builds is only ever asked for membership.
\<close>

definition placeholder_tokens :: "string list \<Rightarrow> string list" where
  "placeholder_tokens names = map upper names"

text \<open>The inner function \<open>_normalize\<close>, closed over \<open>placeholder_tokens\<close>.\<close>

fun normalize :: "string list \<Rightarrow> pyval \<Rightarrow> string option" where
  "normalize tokens (PStr v) =
     (let name = strip v in
      if name = [] then None
      else if upper name \<in> set tokens then None
      else Some name)"
| "normalize tokens v = None"

definition keys :: "string list" where
  "keys = [''name'', ''displayName'', ''rigDisplayName'', ''label'', ''worker'',
           ''rigName'', ''groupName'']"

text \<open>
  Lines 84 to 104 of common.py: the candidate list, built in source order. Every
  \<open>.get\<close> on a value that is not a dict and every iteration over a value that is
  not iterable raises, and the first one to raise ends the call.
\<close>

definition candidates :: "(string \<times> pyval) list \<Rightarrow> py_error + pyval list" where
  "candidates rig =
     (let metadata = py_or (dget rig ''metadata'') (PDict []);
          group = py_or (dget rig ''group'') (PDict []);
          v4 = py_or (dget rig ''v4'') (PDict [])
      in
      ebind (py_get v4 ''mmv'') (\<lambda>mmv0.
      let mmv = py_or mmv0 (PDict []);
          c_rig = map (dget rig) keys
      in
      ebind (emap (py_get metadata) keys) (\<lambda>c_meta.
      ebind (emap (py_get group) (filter (\<lambda>key. is_dict group) keys)) (\<lambda>c_group.
      let c_gn = [dget rig ''groupName''] in
      ebind (py_get mmv ''workerName'') (\<lambda>c_worker.
      ebind (py_get v4 ''osv'') (\<lambda>osv.
      ebind (py_iter (py_or osv (PList []))) (\<lambda>os_values.
      ebind (emap (\<lambda>os_value. py_get os_value ''value'') os_values) (\<lambda>c_osv.
      ebind (py_get v4 ''devices'') (\<lambda>v4_devices.
      ebind (py_iter (py_or v4_devices (PList []))) (\<lambda>devices4.
      ebind (emap (\<lambda>device.
               ebind (py_get device ''dsv'') (\<lambda>dsv0.
               py_get (py_or dsv0 (PDict [])) ''name'')) devices4) (\<lambda>c_dev4.
      ebind (py_iter (dget_default rig ''devices'' (PList []))) (\<lambda>devices.
      ebind (emap (\<lambda>device. py_get device ''name'') devices) (\<lambda>c_dev.
      Inr (c_rig @ c_meta @ c_group @ c_gn @ [c_worker] @ c_osv @ c_dev4 @ c_dev))))))))))))))"

text \<open>Lines 106 to 109: the first candidate that normalises to a name is returned.\<close>

fun first_normalized :: "string list \<Rightarrow> pyval list \<Rightarrow> string option" where
  "first_normalized tokens [] = None"
| "first_normalized tokens (candidate # rest) =
     (case normalize tokens candidate of
        Some normalized \<Rightarrow> Some normalized
      | None \<Rightarrow> first_normalized tokens rest)"

text \<open>
  \<open>resolve_rig_name\<close>, with the iteration order of the placeholder set as a
  parameter. A falsy \<open>rig\<close> (None, but also an empty dict) returns None at once; a
  truthy value that is not a dict has no \<open>get\<close>.
\<close>

definition resolve_rig_name_in :: "string list \<Rightarrow> pyval \<Rightarrow> py_error + pyval" where
  "resolve_rig_name_in names rig =
     (if \<not> truthy rig then Inr PNone
      else case rig of
        PDict m \<Rightarrow>
          ebind (candidates m) (\<lambda>cs.
            case first_normalized (placeholder_tokens names) cs of
              Some normalized \<Rightarrow> Inr (PStr normalized)
            | None \<Rightarrow> Inr (dget m ''rigId''))
      | _ \<Rightarrow> Inl AttributeError)"

definition resolve_rig_name :: "pyval \<Rightarrow> py_error + pyval" where
  "resolve_rig_name rig = resolve_rig_name_in PLACEHOLDER_RIG_NAMES rig"

subsection \<open>The resolver as the specification words it\<close>













section \<open>The poll coordinator\<close>

text \<open>
  A Python exception object: the name of its class, whether that class derives
  from \<open>Exception\<close> (\<open>asyncio.CancelledError\<close>, \<open>KeyboardInterrupt\<close> and
  \<open>SystemExit\<close> derive from \<open>BaseException\<close> only), and \<open>str(err)\<close>.
\<close>

datatype py_exn = PyExn (exn_class: string) (is_Exception: bool) (exn_str: string)

text \<open>
  What awaiting a call of the client yields inside
  \<open>async with async_timeout.timeout(10)\<close>: its result, the exception it raises, or
  nothing before the window of 10 seconds has elapsed. In the last case the context
  manager cancels the call and raises \<open>asyncio.TimeoutError()\<close>, an \<open>Exception\<close>
  whose \<open>str\<close> is empty.
\<close>

datatype 'a awaited = Completes 'a | Raises py_exn | WindowElapses

definition timeout_error :: py_exn where
  "timeout_error = PyExn ''TimeoutError'' True []"

text \<open>
  The client \<open>NiceHashPrivateAPI\<close> is a collaborator of the coordinator and a
  parameter here: the two operations the coordinator awaits.
\<close>

record nicehash_api =
  get_rigs_data :: "pyval awaited"
  get_account_data :: "string \<Rightarrow> pyval awaited"

text \<open>
  Modelled from the spec: the constants \<open>RIGS_OBJ\<close> and \<open>ACCOUNT_OBJ\<close> are
  imported from \<open>const.py\<close>, which is not among the sources; the specification
  names the two stable keys of a snapshot \<open>rigs\<close> and \<open>account\<close>.
\<close>

definition RIGS_OBJ :: string where
  "RIGS_OBJ = ''rigs''"

definition ACCOUNT_OBJ :: string where
  "ACCOUNT_OBJ = ''account''"

type_synonym snapshot = "string \<rightharpoonup> pyval"

text \<open>
  The coordinator object: \<open>self._api\<close>, \<open>self._fiat\<close>, the \<open>update_interval\<close>
  handed to the base class (a \<open>timedelta\<close>, kept as its whole number of seconds)
  and the base class's \<open>data\<close>, the last snapshot.
\<close>

record coordinator =
  coord_api :: nicehash_api
  coord_fiat :: string
  update_interval_seconds :: int
  coord_data :: "snapshot option"




text \<open>What a refresh does that the outside can see, in the order it does it.\<close>

datatype event = CallRigs | LogDebug pyval | CallAccount string

text \<open>
  How a refresh can fail: with \<open>UpdateFailed(message)\<close> chained to its cause
  (\<open>raise ... from err\<close>), or with an exception that the handler
  \<open>except Exception\<close> does not catch and that leaves the method as it is.
\<close>

datatype refresh_error = UpdateFailed string py_exn | Propagated py_exn

text \<open>The body of the \<open>try\<close> block, lines 47 to 51.\<close>

definition fetch_both :: "coordinator \<Rightarrow> (py_exn + snapshot) \<times> event list" where
  "fetch_both self =
     (case get_rigs_data (coord_api self) of
        Raises err \<Rightarrow> (Inl err, [CallRigs])
      | WindowElapses \<Rightarrow> (Inl timeout_error, [CallRigs])
      | Completes rigs \<Rightarrow>
          (let log = [CallRigs, LogDebug rigs, CallAccount (coord_fiat self)] in
           case get_account_data (coord_api self) (coord_fiat self) of
             Raises err \<Rightarrow> (Inl err, log)
           | WindowElapses \<Rightarrow> (Inl timeout_error, log)
           | Completes account \<Rightarrow>
               (Inr (Map.empty(RIGS_OBJ \<mapsto> rigs, ACCOUNT_OBJ \<mapsto> account)), log)))"

text \<open>\<open>_async_update_data\<close>: the \<open>try\<close> block under its handler, lines 46 to 53.\<close>

definition async_update_data :: "coordinator \<Rightarrow> (refresh_error + snapshot) \<times> event list" where
  "async_update_data self =
     (case fetch_both self of
        (Inr snap, log) \<Rightarrow> (Inr snap, log)
      | (Inl err, log) \<Rightarrow>
          (if is_Exception err
           then Inl (UpdateFailed (''Error communicating with API: '' @ exn_str err) err)
           else Inl (Propagated err), log))"

text \<open>
  Modelled from the spec: the base class \<open>DataUpdateCoordinator\<close> belongs to Home
  Assistant and is not among the sources. By the specification a refresh that
  succeeds stores the new snapshot as the last known good one, and a refresh
  that fails leaves the stored snapshot untouched.
\<close>

definition async_refresh :: "coordinator \<Rightarrow> coordinator" where
  "async_refresh self =
     (case fst (async_update_data self) of
        Inr snap \<Rightarrow> self\<lparr>coord_data := Some snap\<rparr>
      | Inl err \<Rightarrow> self)"


section \<open>Lemmas on strings, the filter and the candidate list\<close>




































section \<open>Properties of the resolver\<close>

text \<open>
  C8: when the input rig is null, \<open>resolve_rig_name\<close> returns null at once and
  raises nothing.
\<close>

theorem resolve_rig_name_null: "resolve_rig_name PNone = Inr PNone"
  by (simp add: resolve_rig_name_def resolve_rig_name_in_def)

text \<open>
  C1: the claim is that \<open>resolve_rig_name\<close> never raises on a rig record, whatever
  stands at \<open>metadata\<close>, \<open>group\<close>, \<open>v4\<close> or \<open>devices\<close>. The source does raise:
  a null stored under the top-level key \<open>devices\<close> is iterated (TypeError), and a
  string at \<open>metadata\<close> is asked for \<open>get\<close> (AttributeError), although the first
  candidate of the second rig would qualify.
\<close>

theorem resolve_rig_name_raises:
  "resolve_rig_name (PDict [(''rigId'', PStr ''abc123''), (''devices'', PNone)]) = Inl TypeError
   \<and> resolve_rig_name (PDict [(''name'', PStr ''Rig''), (''metadata'', PStr ''x'')])
       = Inl AttributeError"
  by (simp add: resolve_rig_name_def resolve_rig_name_in_def candidates_def ebind_def
      py_or_def dget_def dget_default_def keys_def)









section \<open>Properties of the coordinator\<close>

text \<open>
  C5: when both fetches complete within the window, the refresh returns a snapshot
  with exactly two entries, the result of the rigs fetch under \<open>rigs\<close> and the
  result of the account fetch under \<open>account\<close>, and this snapshot is the stored
  one afterwards, whatever was stored before.
\<close>

theorem refresh_success_snapshot:
  assumes "get_rigs_data (coord_api self) = Completes rigs"
    and "get_account_data (coord_api self) (coord_fiat self) = Completes account"
  shows "\<exists>snap. fst (async_update_data self) = Inr snap
           \<and> snap RIGS_OBJ = Some rigs \<and> snap ACCOUNT_OBJ = Some account
           \<and> dom snap = {RIGS_OBJ, ACCOUNT_OBJ}
           \<and> coord_data (async_refresh self) = Some snap"
  using assms
  by (auto simp: async_update_data_def async_refresh_def fetch_both_def Let_def
      RIGS_OBJ_def ACCOUNT_OBJ_def)

theorem refresh_success_snapshot_witness:
  "\<exists>snap.
     fst (async_update_data
       \<lparr>coord_api = \<lparr>get_rigs_data = Completes (PList [PDict [(''rigId'', PStr ''abc123'')]]),
                     get_account_data = (\<lambda>fiat. Completes (PDict [(''currency'', PStr fiat)]))\<rparr>,
        coord_fiat = ''EUR'', update_interval_seconds = 300,
        coord_data = Some (Map.empty(''rigs'' \<mapsto> PNone))\<rparr>) = Inr snap
     \<and> snap ''rigs'' = Some (PList [PDict [(''rigId'', PStr ''abc123'')]])
     \<and> snap ''account'' = Some (PDict [(''currency'', PStr ''EUR'')])
     \<and> coord_data (async_refresh
       \<lparr>coord_api = \<lparr>get_rigs_data = Completes (PList [PDict [(''rigId'', PStr ''abc123'')]]),
                     get_account_data = (\<lambda>fiat. Completes (PDict [(''currency'', PStr fiat)]))\<rparr>,
        coord_fiat = ''EUR'', update_interval_seconds = 300,
        coord_data = Some (Map.empty(''rigs'' \<mapsto> PNone))\<rparr>) = Some snap"
proof -
  define self where "self =
       \<lparr>coord_api = \<lparr>get_rigs_data = Completes (PList [PDict [(''rigId'', PStr ''abc123'')]]),
                     get_account_data = (\<lambda>fiat. Completes (PDict [(''currency'', PStr fiat)]))\<rparr>,
        coord_fiat = ''EUR'', update_interval_seconds = 300,
        coord_data = Some (Map.empty(''rigs'' \<mapsto> PNone))\<rparr>"
  have h1: "get_rigs_data (coord_api self) = Completes (PList [PDict [(''rigId'', PStr ''abc123'')]])"
    by (simp add: self_def)
  have h2: "get_account_data (coord_api self) (coord_fiat self)
              = Completes (PDict [(''currency'', PStr ''EUR'')])"
    by (simp add: self_def)
  from refresh_success_snapshot [OF h1 h2] show ?thesis
    unfolding self_def RIGS_OBJ_def ACCOUNT_OBJ_def by blast
qed








end
